theory Spec2Isabelle
  imports Complex_Main "HOL-Library.Word"
begin

section \<open>Values exchanged with the realtime service\<close>

text \<open>
  The client of \<^verbatim>\<open>client_api/client/realtime_client.py\<close> reads every inbound message with
  \<^verbatim>\<open>json.loads\<close> and builds every outbound message as a Python dict handed to
  \<^verbatim>\<open>json.dumps\<close>. Both are modelled by one datatype of JSON values; a dict is an
  association list read with \<open>map_of\<close>. Python's \<^verbatim>\<open>None\<close> is \<open>JNull\<close>.
  A number with a fraction is given by its exact value.
\<close>

datatype json =
    JNull
  | JBool bool
  | JInt int
  | JFloat rat
  | JStr string
  | JArr "json list"
  | JObj "(string \<times> json) list"

type_synonym byte = "8 word"
type_synonym bytes = "byte list"

text \<open>The exceptions the modelled code can raise.\<close>

datatype error =
    KeyError string
  | AttributeError
  | TypeError
  | ValueError
  | JSONDecodeError
  | BinasciiError
  | NameError string
  | IndexError
  | CollaboratorError string

text \<open>Python truthiness, as used by \<^verbatim>\<open>if self._current_response_id:\<close> and the like.\<close>

fun truthy :: "json \<Rightarrow> bool" where
  "truthy JNull = False"
| "truthy (JBool b) = b"
| "truthy (JInt i) = (i \<noteq> 0)"
| "truthy (JFloat r) = (r \<noteq> 0)"
| "truthy (JStr s) = (s \<noteq> [])"
| "truthy (JArr xs) = (xs \<noteq> [])"
| "truthy (JObj kvs) = (kvs \<noteq> [])"

text \<open>
  \<^verbatim>\<open>d.get(k, default)\<close>: only a dict has the method, any other value raises
  AttributeError.
\<close>

fun dict_get :: "json \<Rightarrow> string \<Rightarrow> json \<Rightarrow> error + json" where
  "dict_get (JObj kvs) k dflt = Inr (case map_of kvs k of Some v \<Rightarrow> v | None \<Rightarrow> dflt)"
| "dict_get _ k dflt = Inl AttributeError"

text \<open>
  \<^verbatim>\<open>d[k]\<close> with a string key: KeyError on a dict without the key, TypeError on
  every value that is not a dict.
\<close>

fun getitem :: "json \<Rightarrow> string \<Rightarrow> error + json" where
  "getitem (JObj kvs) k = (case map_of kvs k of Some v \<Rightarrow> Inr v | None \<Rightarrow> Inl (KeyError k))"
| "getitem _ k = Inl TypeError"

text \<open>
  \<^verbatim>\<open>v[0]\<close>: the first element of a list or the first character of a string,
  IndexError when there is none; a dict, whose keys are strings, has no key 0.
\<close>

fun getindex0 :: "json \<Rightarrow> error + json" where
  "getindex0 (JArr []) = Inl IndexError"
| "getindex0 (JArr (x # xs)) = Inr x"
| "getindex0 (JStr []) = Inl IndexError"
| "getindex0 (JStr (ch # s)) = Inr (JStr [ch])"
| "getindex0 (JObj kvs) = Inl (KeyError ''0'')"
| "getindex0 _ = Inl TypeError"

section \<open>Floating point\<close>

text \<open>
  A Python \<^verbatim>\<open>float\<close> is an IEEE 754 double. A double is given here by its exact value,
  a rational, and an arithmetic operation is the exact operation followed by
  \<open>double_round\<close>, rounding to the nearest double, to the even one of two equally near:
  for \<open>2 ^ k \<le> \<bar>x\<bar> < 2 ^ (k + 1)\<close> the doubles near \<open>x\<close> are the multiples of
  \<open>2 ^ (k - 52)\<close>, and of \<open>2 ^ - 1074\<close> below the normal range. Values beyond the largest
  double, which round to infinity, do not occur here and are not modelled.
  \<open>bit_length n\<close> is the number of binary digits of a positive \<open>n\<close> and \<open>floor_log2 x\<close> the
  \<open>k\<close> above.
\<close>

function bit_length :: "int \<Rightarrow> int" where
  "bit_length n = (if n \<le> 0 then 0 else 1 + bit_length (n div 2))"
  by pat_completeness auto
termination
  by (relation "measure nat") auto

declare bit_length.simps [simp del]

definition floor_log2 :: "rat \<Rightarrow> int" where
  "floor_log2 x =
     (let (p, q) = quotient_of x;
          k = bit_length p - bit_length q
      in if 2 powi k \<le> x then k else k - 1)"

definition round_half_even :: "rat \<Rightarrow> int" where
  "round_half_even x =
     (let f = \<lfloor>x\<rfloor>; d = x - of_int f
      in if d < 1 / 2 then f else if d > 1 / 2 then f + 1 else if even f then f else f + 1)"

definition double_round :: "rat \<Rightarrow> rat" where
  "double_round x =
     (if x = 0 then 0
      else (let a = \<bar>x\<bar>;
                e = max (floor_log2 a - 52) (- 1074);
                m = round_half_even (a / 2 powi e)
            in sgn x * of_int m * 2 powi e))"

definition double_sub :: "rat \<Rightarrow> rat \<Rightarrow> rat" where
  "double_sub a b = double_round (a - b)"

definition double_mul :: "rat \<Rightarrow> rat \<Rightarrow> rat" where
  "double_mul a b = double_round (a * b)"

definition double_div :: "rat \<Rightarrow> rat \<Rightarrow> rat" where
  "double_div a b = double_round (a / b)"

section \<open>Library functions and collaborators\<close>

text \<open>
  What is not code of this repository is a parameter of the model:
  \<^verbatim>\<open>json.loads\<close> on a string (\<open>None\<close> when it raises JSONDecodeError),
  \<^verbatim>\<open>base64.b64decode\<close> on a string, \<^verbatim>\<open>repr\<close> of a value that is not a string, and
  the services the retrieval module \<^verbatim>\<open>utils.py\<close> talks to: whether the \<^verbatim>\<open>openai\<close>
  package can be imported (\<open>import_openai\<close>, the exception if not), the construction
  of the database and API clients (\<open>connect_services\<close>), the embedding request with
  the reading of its response (\<open>embeddings_create\<close>), and the query of the collection
  (\<open>chroma_query\<close>).
\<close>

datatype n_results = NResults int | CollectionObject

record env =
  json_loads :: "string \<Rightarrow> json option"
  b64decode :: "string \<Rightarrow> error + bytes"
  py_repr :: "json \<Rightarrow> string"
  import_openai :: "error option"
  connect_services :: "error option"
  embeddings_create :: "json \<Rightarrow> error + json"
  chroma_query :: "json \<Rightarrow> n_results \<Rightarrow> error + json"

text \<open>\<^verbatim>\<open>json.loads(v)\<close>: a value that is not a string raises TypeError.\<close>

fun py_json_loads :: "env \<Rightarrow> json \<Rightarrow> error + json" where
  "py_json_loads E (JStr s) = (case json_loads E s of None \<Rightarrow> Inl JSONDecodeError | Some j \<Rightarrow> Inr j)"
| "py_json_loads E _ = Inl TypeError"

fun py_b64decode :: "env \<Rightarrow> json \<Rightarrow> error + bytes" where
  "py_b64decode E (JStr s) = b64decode E s"
| "py_b64decode E _ = Inl TypeError"

text \<open>\<^verbatim>\<open>str(v)\<close>: a string is returned as it is.\<close>

fun py_str :: "env \<Rightarrow> json \<Rightarrow> string" where
  "py_str E (JStr s) = s"
| "py_str E v = py_repr E v"

section \<open>The client and what it does to the outside\<close>

text \<open>
  The mutable attributes of \<^verbatim>\<open>RealtimeClient\<close> that \<^verbatim>\<open>handle_messages\<close> reads or
  writes, named as in the source without the leading underscore.
\<close>

record client =
  current_response_id :: json
  current_item_id :: json
  is_responding :: bool
  audio_buffer :: bytes
  last_audio_time :: rat
  current_content_index :: int
  current_audio_sample_count :: int

text \<open>The state \<^verbatim>\<open>__init__\<close> sets up.\<close>

definition init_client :: client where
  "init_client =
     \<lparr> current_response_id = JNull, current_item_id = JNull, is_responding = False,
       audio_buffer = [], last_audio_time = 0, current_content_index = 0,
       current_audio_sample_count = 0 \<rparr>"

definition min_audio_chunk_size :: nat where
  "min_audio_chunk_size = 3200"

text \<open>\<^verbatim>\<open>self._playback_rate = 0.95\<close>: the double nearest to 0.95.\<close>

definition playback_rate :: rat where
  "playback_rate = double_round (95 / 100)"

text \<open>
  The attributes fixed at construction: which callbacks were supplied, and the keys of
  \<^verbatim>\<open>extra_event_handlers\<close>.
\<close>

record config =
  on_text_delta :: bool
  on_audio_delta :: bool
  on_interrupt :: bool
  extra_event_handlers :: "string list"

text \<open>What \<^verbatim>\<open>print\<close> writes, without the formatting.\<close>

datatype log_item =
    LogApiError json json json
  | LogHandlingInterruption
  | LogSpeechDetected
  | LogSpeechEnded
  | LogErrorInHandling error

text \<open>
  Everything observable from outside, in the order it happens: a message sent on the
  websocket (the dict before \<^verbatim>\<open>json.dumps\<close>), a printed line, a call of one of the
  callbacks, and \<^verbatim>\<open>asyncio.sleep\<close>. Sending and the callbacks are taken not to raise.
\<close>

datatype effect =
    Sent json
  | Printed log_item
  | TextCallback json
  | AudioCallback bytes
  | InterruptCallback
  | Sleep rat
  | ExtraHandler string json

section \<open>Outbound messages\<close>

definition create_response :: "effect list" where
  "create_response =
     [Sent (JObj [(''type'', JStr ''response.create''),
                  (''response'', JObj [(''modalities'', JArr [JStr ''text'', JStr ''audio''])])])]"

definition send_function_result :: "json \<Rightarrow> string \<Rightarrow> effect list" where
  "send_function_result call_id result =
     [Sent (JObj [(''type'', JStr ''conversation.item.create''),
                  (''item'', JObj [(''type'', JStr ''function_call_output''),
                                   (''call_id'', call_id),
                                   (''output'', JStr result)])])]
     @ create_response"

definition cancel_response :: "effect list" where
  "cancel_response = [Sent (JObj [(''type'', JStr ''response.cancel'')])]"

definition truncate_response :: "client \<Rightarrow> effect list" where
  "truncate_response c =
     (if truthy (current_item_id c) then
        (let audio_ms = (current_audio_sample_count c * 1000) div 24000
         in [Sent (JObj [(''type'', JStr ''conversation.item.truncate''),
                         (''item_id'', current_item_id c),
                         (''content_index'', JInt (current_content_index c)),
                         (''audio_end_ms'', JInt audio_ms)])])
      else [])"

section \<open>The retrieval module\<close>

text \<open>
  \<^verbatim>\<open>client_api/client/utils.py\<close>. Importing the module runs its body: the first line
  imports \<^verbatim>\<open>OpenAI\<close>, the second reads the name \<^verbatim>\<open>chromadb\<close>, which only the fourth
  line, \<^verbatim>\<open>import chromadb\<close>, would bind. \<open>utils_names_at_line_2\<close> are the names the
  body has bound when the second line runs. A module whose body raised is not kept, so
  every import runs the body again.
\<close>

definition utils_names_at_line_2 :: "string list" where
  "utils_names_at_line_2 = [''OpenAI'']"

definition import_utils :: "env \<Rightarrow> error + unit" where
  "import_utils E =
     (case import_openai E of
        Some e \<Rightarrow> Inl e
      | None \<Rightarrow>
          if ''chromadb'' \<in> set utils_names_at_line_2 then
            (case connect_services E of Some e \<Rightarrow> Inl e | None \<Rightarrow> Inr ())
          else Inl (NameError ''chromadb''))"

definition get_embedding :: "env \<Rightarrow> json \<Rightarrow> error + json" where
  "get_embedding E text = embeddings_create E text"

definition query_chroma :: "env \<Rightarrow> json \<Rightarrow> n_results \<Rightarrow> error + json" where
  "query_chroma E query_embedding n =
     (case chroma_query E query_embedding n of
        Inl e \<Rightarrow> Inl e
      | Inr results \<Rightarrow>
          (case getitem results ''documents'' of
             Inl e \<Rightarrow> Inl e
           | Inr documents \<Rightarrow> getindex0 documents))"

text \<open>\<^verbatim>\<open>rag_pipeline\<close> passes the collection where \<^verbatim>\<open>query_chroma\<close> expects \<^verbatim>\<open>n_results\<close>.\<close>

definition rag_pipeline :: "env \<Rightarrow> json \<Rightarrow> error + json" where
  "rag_pipeline E query =
     (case get_embedding E query of
        Inl e \<Rightarrow> Inl e
      | Inr question_embeddings \<Rightarrow> query_chroma E question_embeddings CollectionObject)"

text \<open>
  \<^verbatim>\<open>call_tool\<close> first imports \<^verbatim>\<open>rag_pipeline\<close> from the retrieval module. It does not
  look at \<open>tool_name\<close>: it passes \<^verbatim>\<open>tool_arguments['query']\<close> to the pipeline and
  sends \<^verbatim>\<open>str\<close> of the result.
\<close>

definition call_tool :: "env \<Rightarrow> json \<Rightarrow> json \<Rightarrow> json \<Rightarrow> effect list \<times> (error + unit)" where
  "call_tool E call_id tool_name tool_arguments =
     (case import_utils E of
        Inl e \<Rightarrow> ([], Inl e)
      | Inr imported \<Rightarrow>
          (case getitem tool_arguments ''query'' of
             Inl e \<Rightarrow> ([], Inl e)
           | Inr q \<Rightarrow>
               (case rag_pipeline E q of
                  Inl e \<Rightarrow> ([], Inl e)
                | Inr tool_result \<Rightarrow>
                    (send_function_result call_id (py_str E tool_result), Inr ()))))"

definition handle_interruption :: "client \<Rightarrow> effect list \<times> client" where
  "handle_interruption c =
     (if \<not> is_responding c then ([], c)
      else
        ([Printed LogHandlingInterruption]
         @ (if truthy (current_response_id c) then cancel_response else [])
         @ (if truthy (current_item_id c) then truncate_response c else []),
         c\<lparr> is_responding := False, current_response_id := JNull, current_item_id := JNull \<rparr>))"

section \<open>The message loop\<close>

text \<open>
  \<open>in_handlers\<close> is \<^verbatim>\<open>event_type in self.extra_event_handlers\<close>: a list or a dict is
  unhashable and raises TypeError; the keys are strings.
\<close>

fun in_handlers :: "json \<Rightarrow> string list \<Rightarrow> error + string option" where
  "in_handlers (JStr s) ks = Inr (if s \<in> set ks then Some s else None)"
| "in_handlers (JArr _) ks = Inl TypeError"
| "in_handlers (JObj _) ks = Inl TypeError"
| "in_handlers _ ks = Inr None"

text \<open>
  \<open>handle_event\<close> is the body of the loop of \<^verbatim>\<open>handle_messages\<close> for one parsed
  event; \<open>now\<close> is the double \<^verbatim>\<open>asyncio.get_event_loop().time()\<close> returns while the event
  is handled. The result is the effects in order and either the exception raised or the
  client afterwards. Every exception of the body is raised before the body changes the
  client.
\<close>

definition handle_event ::
  "env \<Rightarrow> config \<Rightarrow> client \<Rightarrow> rat \<Rightarrow> json \<Rightarrow> effect list \<times> (error + client)" where
  "handle_event E cfg c now event =
    (case dict_get event ''type'' JNull of
       Inl e \<Rightarrow> ([], Inl e)
     | Inr event_type \<Rightarrow>
      if event_type = JStr ''error'' then
        (case dict_get event ''error'' (JObj []) of
           Inl e \<Rightarrow> ([], Inl e)
         | Inr err \<Rightarrow>
            (case dict_get err ''message'' (JStr ''Unknown error'') of
               Inl e \<Rightarrow> ([], Inl e)
             | Inr m \<Rightarrow>
                (case dict_get err ''code'' JNull of
                   Inl e \<Rightarrow> ([], Inl e)
                 | Inr code \<Rightarrow>
                    (case dict_get err ''event_id'' JNull of
                       Inl e \<Rightarrow> ([], Inl e)
                     | Inr eid \<Rightarrow> ([Printed (LogApiError m code eid)], Inr c)))))
      else if event_type = JStr ''response.created'' then
        (case dict_get event ''response'' (JObj []) of
           Inl e \<Rightarrow> ([], Inl e)
         | Inr r \<Rightarrow>
            (case dict_get r ''id'' JNull of
               Inl e \<Rightarrow> ([], Inl e)
             | Inr rid \<Rightarrow>
                ([], Inr (c\<lparr> current_response_id := rid, is_responding := True,
                             audio_buffer := [] \<rparr>))))
      else if event_type = JStr ''response.output_item.added'' then
        (case dict_get event ''item'' (JObj []) of
           Inl e \<Rightarrow> ([], Inl e)
         | Inr item \<Rightarrow>
            (case dict_get item ''id'' JNull of
               Inl e \<Rightarrow> ([], Inl e)
             | Inr iid \<Rightarrow> ([], Inr (c\<lparr> current_item_id := iid \<rparr>))))
      else if event_type = JStr ''response.done'' then
        (let (played, c1) =
               (if audio_buffer c \<noteq> [] \<and> on_audio_delta cfg
                then ([AudioCallback (audio_buffer c)], c\<lparr> audio_buffer := [] \<rparr>)
                else ([], c))
         in (played, Inr (c1\<lparr> is_responding := False, current_response_id := JNull,
                               current_item_id := JNull \<rparr>)))
      else if event_type = JStr ''input_audio_buffer.speech_started'' then
        (let (sent, c1) = (if is_responding c then handle_interruption c else ([], c))
         in ([Printed LogSpeechDetected] @ sent
             @ (if on_interrupt cfg then [InterruptCallback] else []),
             Inr c1))
      else if event_type = JStr ''input_audio_buffer.speech_stopped'' then
        ([Printed LogSpeechEnded], Inr c)
      else if event_type = JStr ''response.text.delta'' then
        (if on_text_delta cfg then
           (case getitem event ''delta'' of
              Inl e \<Rightarrow> ([], Inl e)
            | Inr d \<Rightarrow> ([TextCallback d], Inr c))
         else ([], Inr c))
      else if event_type = JStr ''response.audio.delta'' then
        (if on_audio_delta cfg then
           (case getitem event ''delta'' of
              Inl e \<Rightarrow> ([], Inl e)
            | Inr d \<Rightarrow>
               (case py_b64decode E d of
                  Inl e \<Rightarrow> ([], Inl e)
                | Inr audio_bytes \<Rightarrow>
                   (let buf = audio_buffer c @ audio_bytes;
                        current_time = now;
                        time_since_last = double_sub current_time (last_audio_time c);
                        chunk_duration = double_div (of_nat (length buf)) 48000;
                        target_delay = double_mul chunk_duration playback_rate
                    in if length buf \<ge> min_audio_chunk_size \<and> time_since_last \<ge> target_delay
                       then ([Sleep (double_mul target_delay (double_round (1 / 10))),
                              AudioCallback buf],
                             Inr (c\<lparr> audio_buffer := [],
                                     last_audio_time := current_time,
                                     current_audio_sample_count :=
                                       current_audio_sample_count c + int (length buf) div 2 \<rparr>))
                       else ([], Inr (c\<lparr> audio_buffer := buf \<rparr>)))))
         else ([], Inr c))
      else if event_type = JStr ''response.function_call_arguments.done'' then
        (case getitem event ''call_id'' of
           Inl e \<Rightarrow> ([], Inl e)
         | Inr call_id \<Rightarrow>
            (case getitem event ''name'' of
               Inl e \<Rightarrow> ([], Inl e)
             | Inr name \<Rightarrow>
                (case getitem event ''arguments'' of
                   Inl e \<Rightarrow> ([], Inl e)
                 | Inr arguments \<Rightarrow>
                    (case py_json_loads E arguments of
                       Inl e \<Rightarrow> ([], Inl e)
                     | Inr args \<Rightarrow>
                        (case call_tool E call_id name args of
                           (sent, Inl e) \<Rightarrow> (sent, Inl e)
                         | (sent, Inr _) \<Rightarrow> (sent, Inr c))))))
      else
        (case in_handlers event_type (extra_event_handlers cfg) of
           Inl e \<Rightarrow> ([], Inl e)
         | Inr (Some k) \<Rightarrow> ([ExtraHandler k event], Inr c)
         | Inr None \<Rightarrow> ([], Inr c)))"

text \<open>
  \<open>handle_messages\<close> is the loop: each inbound item is the clock reading and the
  message text. A message that does not parse, or an exception of the body, is printed
  and raised again by the \<^verbatim>\<open>except Exception\<close> clause, which ends the loop; the
  messages after it are never read. The end of the list is the connection closing.
\<close>

fun handle_messages ::
  "env \<Rightarrow> config \<Rightarrow> client \<Rightarrow> (rat \<times> string) list \<Rightarrow> effect list \<times> (error + client)" where
  "handle_messages E cfg c [] = ([], Inr c)"
| "handle_messages E cfg c ((now, message) # rest) =
     (case json_loads E message of
        None \<Rightarrow> ([Printed (LogErrorInHandling JSONDecodeError)], Inl JSONDecodeError)
      | Some event \<Rightarrow>
         (case handle_event E cfg c now event of
            (out, Inl e) \<Rightarrow> (out @ [Printed (LogErrorInHandling e)], Inl e)
          | (out, Inr c1) \<Rightarrow>
             (case handle_messages E cfg c1 rest of
                (out1, r) \<Rightarrow> (out @ out1, r))))"

section \<open>Reading events and traces\<close>

text \<open>
  The statements below describe an event by what the loop reads from it:
  \<open>is_event ty event\<close> holds when \<^verbatim>\<open>event.get("type")\<close> is the string \<open>ty\<close>,
  \<open>created_id\<close> is the id a \<^verbatim>\<open>response.created\<close> event records,
  \<open>audio_delta_bytes\<close> the bytes a \<^verbatim>\<open>response.audio.delta\<close> event decodes to, and
  \<open>message_delta_bytes\<close> the same for an item of the inbound stream.
\<close>

definition is_event :: "string \<Rightarrow> json \<Rightarrow> bool" where
  "is_event ty event = (dict_get event ''type'' JNull = Inr (JStr ty))"

definition created_id :: "json \<Rightarrow> json option" where
  "created_id event =
     (if is_event ''response.created'' event then
        (case dict_get event ''response'' (JObj []) of
           Inl e \<Rightarrow> None
         | Inr r \<Rightarrow> (case dict_get r ''id'' JNull of Inl e \<Rightarrow> None | Inr rid \<Rightarrow> Some rid))
      else None)"

definition audio_delta_bytes :: "env \<Rightarrow> json \<Rightarrow> bytes option" where
  "audio_delta_bytes E event =
     (if is_event ''response.audio.delta'' event then
        (case getitem event ''delta'' of
           Inl e \<Rightarrow> None
         | Inr d \<Rightarrow> (case py_b64decode E d of Inl e \<Rightarrow> None | Inr bs \<Rightarrow> Some bs))
      else None)"

definition message_delta_bytes :: "env \<Rightarrow> rat \<times> string \<Rightarrow> bytes option" where
  "message_delta_bytes E tm =
     (case json_loads E (snd tm) of None \<Rightarrow> None | Some event \<Rightarrow> audio_delta_bytes E event)"

text \<open>The chunks passed to \<^verbatim>\<open>on_audio_delta\<close> and the messages sent, in order.\<close>

fun callback_chunks :: "effect list \<Rightarrow> bytes list" where
  "callback_chunks [] = []"
| "callback_chunks (AudioCallback bs # out) = bs # callback_chunks out"
| "callback_chunks (_ # out) = callback_chunks out"

fun sent_messages :: "effect list \<Rightarrow> json list" where
  "sent_messages [] = []"
| "sent_messages (Sent m # out) = m # sent_messages out"
| "sent_messages (_ # out) = sent_messages out"

text \<open>
  The pacing condition of the \<^verbatim>\<open>response.audio.delta\<close> branch, for a buffer of \<open>n\<close>
  bytes: \<^verbatim>\<open>target_delay = len(buffer) / 48000 * 0.95\<close>, in doubles.
\<close>

definition target_delay :: "nat \<Rightarrow> rat" where
  "target_delay n = double_mul (double_div (of_nat n) 48000) playback_rate"

definition releases :: "client \<Rightarrow> rat \<Rightarrow> bytes \<Rightarrow> bool" where
  "releases c now buf =
     (length buf \<ge> min_audio_chunk_size
      \<and> double_sub now (last_audio_time c) \<ge> target_delay (length buf))"

section \<open>The local voice-activity gate\<close>










section \<open>A concrete environment\<close>

text \<open>
  The library functions on the inputs used in the examples below.
  \<open>example_b64decode\<close> decodes the base64 texts of zero bytes, which are runs of the
  letter A with the usual padding; \<open>example_json_loads\<close> reads the JSON texts of the
  table and every audio delta message built by \<open>audio_delta_text\<close>;
  the \<^verbatim>\<open>openai\<close> package is installed and the services answer: the embedding
  request with a vector and the collection with one document, ANSWER.
\<close>

definition example_b64decode :: "string \<Rightarrow> error + bytes" where
  "example_b64decode s =
     (let n = length (takeWhile (\<lambda>ch. ch = CHR ''A'') s); pad = drop n s
      in if n mod 4 = 0 \<and> pad = [] then Inr (replicate (n div 4 * 3) 0)
         else if n mod 4 = 2 \<and> pad = ''=='' then Inr (replicate (n div 4 * 3 + 1) 0)
         else if n mod 4 = 3 \<and> pad = ''='' then Inr (replicate (n div 4 * 3 + 2) 0)
         else Inl BinasciiError)"

definition audio_delta_text :: "string \<Rightarrow> string" where
  \<open>audio_delta_text d = ''{"type":"response.audio.delta","delta":"'' @ d @ ''"}''\<close>

definition audio_delta_event :: "string \<Rightarrow> json" where
  "audio_delta_event d = JObj [(''type'', JStr ''response.audio.delta''), (''delta'', JStr d)]"

definition created_text :: "string" where
  \<open>created_text = ''{"type":"response.created","response":{"id":"r1"}}''\<close>

definition created_event :: json where
  "created_event =
     JObj [(''type'', JStr ''response.created''), (''response'', JObj [(''id'', JStr ''r1'')])]"

definition created2_text :: "string" where
  \<open>created2_text = ''{"type":"response.created","response":{"id":"r2"}}''\<close>

definition created2_event :: json where
  "created2_event =
     JObj [(''type'', JStr ''response.created''), (''response'', JObj [(''id'', JStr ''r2'')])]"

definition item_added_text :: "string" where
  \<open>item_added_text = ''{"type":"response.output_item.added","item":{"id":"i1"}}''\<close>

definition item_added_event :: json where
  "item_added_event =
     JObj [(''type'', JStr ''response.output_item.added''), (''item'', JObj [(''id'', JStr ''i1'')])]"

definition item_added2_text :: "string" where
  \<open>item_added2_text = ''{"type":"response.output_item.added","item":{"id":"i2"}}''\<close>

definition item_added2_event :: json where
  "item_added2_event =
     JObj [(''type'', JStr ''response.output_item.added''), (''item'', JObj [(''id'', JStr ''i2'')])]"

definition done_text :: "string" where
  \<open>done_text = ''{"type":"response.done"}''\<close>

definition done_event :: json where
  "done_event = JObj [(''type'', JStr ''response.done'')]"

definition speech_started_text :: "string" where
  \<open>speech_started_text = ''{"type":"input_audio_buffer.speech_started"}''\<close>

definition speech_started_event :: json where
  "speech_started_event = JObj [(''type'', JStr ''input_audio_buffer.speech_started'')]"

definition query_text :: "string" where
  \<open>query_text = ''{"query":"X"}''\<close>

definition query_args :: json where
  "query_args = JObj [(''query'', JStr ''X'')]"

definition tool_call_event :: "string \<Rightarrow> string \<Rightarrow> json" where
  "tool_call_event name arguments =
     JObj [(''type'', JStr ''response.function_call_arguments.done''),
           (''call_id'', JStr ''c1''), (''name'', JStr name), (''arguments'', JStr arguments)]"

definition bad_arguments_text :: "string" where
  \<open>bad_arguments_text =
     ''{"type":"response.function_call_arguments.done","call_id":"c1","name":"lookup","arguments":"{query"}''\<close>

definition tool_call_text :: "string" where
  \<open>tool_call_text =
     ''{"type":"response.function_call_arguments.done","call_id":"c1","name":"lookup","arguments":"{''
     @ [CHR 0x5C] @ ''"query'' @ [CHR 0x5C] @ ''":'' @ [CHR 0x5C] @ ''"X'' @ [CHR 0x5C]
     @ ''"}"}''\<close>

definition example_table :: "(string \<times> json) list" where
  "example_table =
     [(created_text, created_event),
      (created2_text, created2_event),
      (item_added_text, item_added_event),
      (item_added2_text, item_added2_event),
      (done_text, done_event),
      (speech_started_text, speech_started_event),
      (query_text, query_args),
      (bad_arguments_text, tool_call_event ''lookup'' ''{query''),
      (tool_call_text, tool_call_event ''lookup'' query_text)]"

definition example_json_loads :: "string \<Rightarrow> json option" where
  "example_json_loads s =
     (if take 40 s = take 40 (audio_delta_text []) \<and> drop (length s - 2) s = drop 40 (audio_delta_text [])
      then Some (audio_delta_event (take (length s - 42) (drop 40 s)))
      else map_of example_table s)"

definition example_embeddings_create :: "json \<Rightarrow> error + json" where
  "example_embeddings_create text = Inr (JArr [JFloat (1 / 2), JFloat (1 / 4)])"

definition example_chroma_query :: "json \<Rightarrow> n_results \<Rightarrow> error + json" where
  "example_chroma_query query_embedding n =
     Inr (JObj [(''documents'', JArr [JArr [JStr ''ANSWER'']])])"

definition example_repr :: "json \<Rightarrow> string" where
  "example_repr v = ''[]''"

definition example_env :: env where
  "example_env =
     \<lparr> json_loads = example_json_loads, b64decode = example_b64decode,
       py_repr = example_repr, import_openai = None, connect_services = None,
       embeddings_create = example_embeddings_create,
       chroma_query = example_chroma_query \<rparr>"

definition example_config :: config where
  "example_config =
     \<lparr> on_text_delta = True, on_audio_delta = True, on_interrupt = True,
       extra_event_handlers = [] \<rparr>"

text \<open>The client as \<^verbatim>\<open>__init__\<close> makes it when no callback is passed.\<close>

definition default_config :: config where
  "default_config =
     \<lparr> on_text_delta = False, on_audio_delta = False, on_interrupt = False,
       extra_event_handlers = [] \<rparr>"

text \<open>The double nearest to 0.07125.\<close>

definition boundary_time :: rat where
  "boundary_time = 5134103575202365 / 72057594037927936"

text \<open>A client in the middle of a response, 4800 bytes of which were played.\<close>

definition responding_client :: client where
  "responding_client =
     \<lparr> current_response_id = JStr ''r1'', current_item_id = JStr ''i1'', is_responding = True,
       audio_buffer = [], last_audio_time = 1, current_content_index = 0,
       current_audio_sample_count = 2400 \<rparr>"





section \<open>Properties of the floating-point model\<close>

lemma bit_length_bounds:
  "0 < n \<Longrightarrow>
     0 < bit_length n \<and> n < 2 ^ nat (bit_length n) \<and> 2 ^ (nat (bit_length n) - 1) \<le> n"
proof (induction n rule: bit_length.induct)
  case (1 n)
  show ?case
  proof (cases "n div 2 \<le> 0")
    case True
    with 1(2) have "n = 1" by linarith
    then show ?thesis by (simp add: bit_length.simps [of 1] bit_length.simps [of 0])
  next
    case False
    then have pos: "0 < n div 2" by simp
    with 1 have ih: "0 < bit_length (n div 2)" "n div 2 < 2 ^ nat (bit_length (n div 2))"
      "2 ^ (nat (bit_length (n div 2)) - 1) \<le> n div 2"
      by auto
    define b where "b = nat (bit_length (n div 2))"
    have b: "0 < b" "bit_length (n div 2) = int b" using ih(1) by (simp_all add: b_def)
    have bl: "bit_length n = 1 + int b"
      using 1(2) b(2) by (simp add: bit_length.simps [of n])
    have nb: "nat (bit_length n) = Suc b" by (simp add: bl)
    have "n < 2 * 2 ^ b" using ih(2) unfolding b_def [symmetric] by linarith
    moreover have "2 * 2 ^ (b - 1) \<le> n" using ih(3) unfolding b_def [symmetric] by linarith
    moreover have "(2::int) * 2 ^ (b - 1) = 2 ^ b" using b(1) by (cases b) simp_all
    ultimately have "n < 2 ^ nat (bit_length n) \<and> 2 ^ (nat (bit_length n) - 1) \<le> n"
      unfolding nb by simp
    moreover have "0 < bit_length n" unfolding bl by simp
    ultimately show ?thesis by simp
  qed
qed

lemma floor_log2_correct:
  assumes "0 < x"
  shows "2 powi floor_log2 x \<le> x \<and> x < 2 powi (floor_log2 x + 1)"
proof -
  obtain p q where pq: "quotient_of x = (p, q)" by (cases "quotient_of x")
  then have q: "0 < q" and x: "x = of_int p / of_int q"
    using quotient_of_denom_pos quotient_of_div by blast+
  from assms x q have p: "0 < p" by (simp add: zero_less_divide_iff)
  define bp where "bp = nat (bit_length p)"
  define bq where "bq = nat (bit_length q)"
  define k where "k = int bp - int bq"
  from bit_length_bounds [of p] p
  have lp: "0 < bit_length p" and p1: "p < 2 ^ bp" and p2: "2 ^ (bp - 1) \<le> p"
    by (simp_all add: bp_def)
  from bit_length_bounds [of q] q
  have lq: "0 < bit_length q" and q1: "q < 2 ^ bq" and q2: "2 ^ (bq - 1) \<le> q"
    by (simp_all add: bq_def)
  have bp: "0 < bp" using lp by (simp add: bp_def)
  have bq: "0 < bq" using lq by (simp add: bq_def)
  have kk: "k = bit_length p - bit_length q" using lp lq by (simp add: k_def bp_def bq_def)
  have P1: "(of_int p :: rat) < 2 powi int bp"
  proof -
    have "of_int p < (of_int (2 ^ bp) :: rat)" using p1 by (simp only: of_int_less_iff)
    then show ?thesis by simp
  qed
  have P2: "2 powi (int bp - 1) \<le> (of_int p :: rat)"
  proof -
    obtain n where n: "bp = Suc n" using bp by (cases bp) auto
    have "(of_int (2 ^ n) :: rat) \<le> of_int p"
      using p2 unfolding n by (simp only: of_int_le_iff diff_Suc_1)
    then have "(2::rat) ^ n \<le> of_int p" by simp
    moreover have "(2::rat) powi (int bp - 1) = 2 ^ n" unfolding n by simp
    ultimately show ?thesis by simp
  qed
  have Q1: "(of_int q :: rat) < 2 powi int bq"
  proof -
    have "of_int q < (of_int (2 ^ bq) :: rat)" using q1 by (simp only: of_int_less_iff)
    then show ?thesis by simp
  qed
  have Q2: "2 powi (int bq - 1) \<le> (of_int q :: rat)"
  proof -
    obtain n where n: "bq = Suc n" using bq by (cases bq) auto
    have "(of_int (2 ^ n) :: rat) \<le> of_int q"
      using q2 unfolding n by (simp only: of_int_le_iff diff_Suc_1)
    then have "(2::rat) ^ n \<le> of_int q" by simp
    moreover have "(2::rat) powi (int bq - 1) = 2 ^ n" unfolding n by simp
    ultimately show ?thesis by simp
  qed
  have qpos: "(0::rat) < of_int q" using q by simp
  have e1: "(2::rat) powi (k - 1) * 2 powi int bq = 2 powi (int bp - 1)"
  proof -
    have "(2::rat) powi ((k - 1) + int bq) = 2 powi (k - 1) * 2 powi int bq"
      by (rule power_int_add) simp
    moreover have "(k - 1) + int bq = int bp - 1" by (simp add: k_def)
    ultimately show ?thesis by simp
  qed
  have e2: "(2::rat) powi (k + 1) * 2 powi (int bq - 1) = 2 powi int bp"
  proof -
    have "(2::rat) powi ((k + 1) + (int bq - 1)) = 2 powi (k + 1) * 2 powi (int bq - 1)"
      by (rule power_int_add) simp
    moreover have "(k + 1) + (int bq - 1) = int bp" by (simp add: k_def)
    ultimately show ?thesis by simp
  qed
  have pk1: "(0::rat) < 2 powi (k - 1)" and pk2: "(0::rat) < 2 powi (k + 1)"
    by (simp_all add: zero_less_power_int)
  have lo: "2 powi (k - 1) < x"
  proof -
    have "2 powi (k - 1) * of_int q < 2 powi (k - 1) * (2 powi int bq :: rat)"
      using Q1 pk1 by (rule mult_strict_left_mono)
    also have "\<dots> = 2 powi (int bp - 1)" by (rule e1)
    also have "\<dots> \<le> of_int p" by (rule P2)
    finally have "2 powi (k - 1) * of_int q < (of_int p :: rat)" .
    then have "2 powi (k - 1) < (of_int p :: rat) / of_int q"
      using qpos by (simp only: pos_less_divide_eq)
    then show ?thesis by (simp only: x)
  qed
  have hi: "x < 2 powi (k + 1)"
  proof -
    have "of_int p < (2 powi int bp :: rat)" by (rule P1)
    also have "\<dots> = 2 powi (k + 1) * 2 powi (int bq - 1)" by (rule e2 [symmetric])
    also have "\<dots> \<le> 2 powi (k + 1) * of_int q"
      using Q2 pk2 by (intro mult_left_mono) simp_all
    finally have "(of_int p :: rat) < 2 powi (k + 1) * of_int q" .
    then have "(of_int p :: rat) / of_int q < 2 powi (k + 1)"
      using qpos by (simp only: pos_divide_less_eq)
    then show ?thesis by (simp only: x)
  qed
  have fl: "floor_log2 x = (if 2 powi k \<le> x then k else k - 1)"
    by (simp add: floor_log2_def pq kk)
  show ?thesis
  proof (cases "2 powi k \<le> x")
    case True
    then show ?thesis using hi by (simp add: fl)
  next
    case False
    then show ?thesis using lo by (simp add: fl)
  qed
qed

lemma floor_log2_unique:
  assumes "0 < x" and "2 powi k \<le> x" and "x < 2 powi (k + 1)"
  shows "floor_log2 x = k"
proof -
  from floor_log2_correct [OF assms(1)]
  have a: "2 powi floor_log2 x \<le> x" and b: "x < 2 powi (floor_log2 x + 1)" by simp_all
  have one: "(1::rat) \<le> 2" by simp
  have u: "(2::rat) powi floor_log2 x < 2 powi (k + 1)" using a assms(3) by (rule le_less_trans)
  have "\<not> k + 1 \<le> floor_log2 x"
  proof
    assume h: "k + 1 \<le> floor_log2 x"
    from power_int_increasing [OF h one] u show False by simp
  qed
  moreover
  have l: "(2::rat) powi k < 2 powi (floor_log2 x + 1)" using assms(2) b by (rule le_less_trans)
  have "\<not> floor_log2 x + 1 \<le> k"
  proof
    assume h: "floor_log2 x + 1 \<le> k"
    from power_int_increasing [OF h one] l show False by simp
  qed
  ultimately show ?thesis by linarith
qed

lemma round_half_even_near:
  assumes "\<bar>x - of_int m\<bar> < 1 / 2"
  shows "round_half_even x = m"
proof -
  from assms have up: "x - of_int m < 1 / 2" and dn: "of_int m - x < 1 / 2"
    by linarith+
  have f: "\<lfloor>x\<rfloor> = m \<or> \<lfloor>x\<rfloor> = m - 1"
  proof -
    have "of_int (m - 1) \<le> x" using dn by simp
    then have "m - 1 \<le> \<lfloor>x\<rfloor>" by (simp only: le_floor_iff)
    moreover have "x < of_int (m + 1)" using up by simp
    then have "\<lfloor>x\<rfloor> < m + 1" by (simp only: floor_less_iff)
    ultimately show ?thesis by linarith
  qed
  then show ?thesis
  proof
    assume h: "\<lfloor>x\<rfloor> = m"
    with up show ?thesis by (simp add: round_half_even_def Let_def)
  next
    assume h: "\<lfloor>x\<rfloor> = m - 1"
    have "x - of_int (m - 1) > 1 / 2" using dn by simp
    then show ?thesis by (simp add: round_half_even_def Let_def h)
  qed
qed

text \<open>
  The double nearest to a positive \<open>x\<close> of the normal range, from the power of two
  below \<open>x\<close> and the integer nearest to \<open>x\<close> scaled.
\<close>

lemma double_round_normal:
  assumes "0 < x" and "2 powi k \<le> x" and "x < 2 powi (k + 1)" and "- 1022 \<le> k"
    and "\<bar>x / 2 powi (k - 52) - of_int m\<bar> < 1 / 2"
  shows "double_round x = of_int m * 2 powi (k - 52)"
proof -
  have fl: "floor_log2 x = k" using assms(1,2,3) by (rule floor_log2_unique)
  have mx: "max (k - 52) (- 1074) = k - 52" using assms(4) by linarith
  have ab: "\<bar>x\<bar> = x" "sgn x = 1" using assms(1) by simp_all
  have r: "round_half_even (x / 2 powi (k - 52)) = m" using assms(5) by (rule round_half_even_near)
  have "double_round x = sgn x * of_int (round_half_even (\<bar>x\<bar> / 2 powi max (floor_log2 \<bar>x\<bar> - 52) (- 1074)))
          * 2 powi max (floor_log2 \<bar>x\<bar> - 52) (- 1074)"
    using assms(1) by (simp add: double_round_def Let_def)
  then show ?thesis unfolding ab fl mx r by simp
qed

text \<open>The doubles that occur in the examples.\<close>

lemma playback_rate_value: "playback_rate = 4278419646001971 / 4503599627370496"
  unfolding playback_rate_def
  using double_round_normal [of "95 / 100" "- 1" 8556839292003942] by simp

lemma double_round_small:
  "double_round 1 = 1"
  "double_round 2 = 2"
  "double_round 3 = 3"
  using double_round_normal [of 1 0 4503599627370496]
    double_round_normal [of 2 1 4503599627370496]
    double_round_normal [of 3 1 6755399441055744]
  by simp_all

lemma double_sub_examples:
  "double_sub 1 0 = 1"
  "double_sub 2 0 = 2"
  "double_sub 3 0 = 3"
  "double_sub 3 2 = 1"
  "double_sub 5 2 = 3"
  by (simp_all add: double_sub_def double_round_small)

lemma boundary_time_double: "double_round boundary_time = boundary_time"
  unfolding boundary_time_def
  using double_round_normal [of "5134103575202365 / 72057594037927936" "- 4" 5134103575202365] by simp

lemma boundary_time_nearest: "double_round (7125 / 100000) = boundary_time"
  unfolding boundary_time_def
  using double_round_normal [of "7125 / 100000" "- 4" 5134103575202365] by simp

lemma target_delay_4800: "target_delay 4800 = 3422735716801577 / 36028797018963968"
proof -
  have a: "double_round (of_nat 4800 / 48000) = 3602879701896397 / 36028797018963968"
    using double_round_normal [of "of_nat 4800 / 48000" "- 4" 7205759403792794] by simp
  have b: "double_round ((3602879701896397 / 36028797018963968) * (4278419646001971 / 4503599627370496)) = 3422735716801577 / 36028797018963968"
    using double_round_normal [of "(3602879701896397 / 36028797018963968) * (4278419646001971 / 4503599627370496)" "- 4" 6845471433603154] by simp
  show ?thesis
    unfolding target_delay_def double_mul_def double_div_def playback_rate_value a b ..
qed

lemma target_delay_3201: "target_delay 3201 = 4565073762284103 / 72057594037927936"
proof -
  have a: "double_round (of_nat 3201 / 48000) = 4805340802404319 / 72057594037927936"
    using double_round_normal [of "of_nat 3201 / 48000" "- 4" 4805340802404319] by simp
  have b: "double_round ((4805340802404319 / 72057594037927936) * (4278419646001971 / 4503599627370496)) = 4565073762284103 / 72057594037927936"
    using double_round_normal [of "(4805340802404319 / 72057594037927936) * (4278419646001971 / 4503599627370496)" "- 4" 4565073762284103] by simp
  show ?thesis
    unfolding target_delay_def double_mul_def double_div_def playback_rate_value a b ..
qed

lemma target_delay_3500: "target_delay 3500 = 1247872396750575 / 18014398509481984"
proof -
  have a: "double_round (of_nat 3500 / 48000) = 5254199565265579 / 72057594037927936"
    using double_round_normal [of "of_nat 3500 / 48000" "- 4" 5254199565265579] by simp
  have b: "double_round ((5254199565265579 / 72057594037927936) * (4278419646001971 / 4503599627370496)) = 1247872396750575 / 18014398509481984"
    using double_round_normal [of "(5254199565265579 / 72057594037927936) * (4278419646001971 / 4503599627370496)" "- 4" 4991489587002300] by simp
  show ?thesis
    unfolding target_delay_def double_mul_def double_div_def playback_rate_value a b ..
qed

lemma target_delay_3600: "target_delay 3600 = 5134103575202365 / 72057594037927936"
proof -
  have a: "double_round (of_nat 3600 / 48000) = 5404319552844595 / 72057594037927936"
    using double_round_normal [of "of_nat 3600 / 48000" "- 4" 5404319552844595] by simp
  have b: "double_round ((5404319552844595 / 72057594037927936) * (4278419646001971 / 4503599627370496)) = 5134103575202365 / 72057594037927936"
    using double_round_normal [of "(5404319552844595 / 72057594037927936) * (4278419646001971 / 4503599627370496)" "- 4" 5134103575202365] by simp
  show ?thesis
    unfolding target_delay_def double_mul_def double_div_def playback_rate_value a b ..
qed

lemma double_sub_boundary: "double_sub boundary_time 0 = boundary_time"
  by (simp add: double_sub_def boundary_time_double)

text \<open>The pacing tests of the examples.\<close>

lemma pacing_examples:
  "target_delay 4800 \<le> double_sub 1 0"
  "target_delay 4800 \<le> double_sub 2 0"
  "target_delay 4800 \<le> double_sub 3 0"
  "target_delay 3201 \<le> double_sub 2 0"
  "target_delay 3201 \<le> double_sub 3 2"
  "target_delay 3500 \<le> double_sub 1 0"
  "target_delay 3500 \<le> double_sub 5 2"
  by (simp_all add: target_delay_4800 target_delay_3201 target_delay_3500 double_sub_examples)

text \<open>
  With 3600 bytes buffered the delay the code computes is the double nearest to 0.07125,
  which is below 0.07125.
\<close>

lemma target_delay_boundary: "target_delay 3600 = boundary_time"
  unfolding target_delay_3600 boundary_time_def ..

lemma pacing_boundary: "target_delay 3600 \<le> double_sub boundary_time 0"
  by (simp only: target_delay_boundary double_sub_boundary order_refl)

lemma boundary_time_below: "boundary_time < 3600 / 48000 * (95 / 100)"
  by (simp add: boundary_time_def)

section \<open>Properties of the message loop\<close>

lemma callback_chunks_append [simp]:
  "callback_chunks (xs @ ys) = callback_chunks xs @ callback_chunks ys"
  by (induction xs rule: callback_chunks.induct) simp_all

lemma sent_messages_append [simp]:
  "sent_messages (xs @ ys) = sent_messages xs @ sent_messages ys"
  by (induction xs rule: sent_messages.induct) simp_all

lemma handle_event_created:
  assumes "created_id event = Some rid"
  shows "handle_event E cfg c now event =
     ([], Inr (c\<lparr> current_response_id := rid, is_responding := True, audio_buffer := [] \<rparr>))"
  using assms
  by (auto simp: handle_event_def created_id_def is_event_def split: if_splits sum.splits)

lemma handle_event_done:
  assumes "is_event ''response.done'' event"
  shows "handle_event E cfg c now event =
     (if audio_buffer c \<noteq> [] \<and> on_audio_delta cfg then [AudioCallback (audio_buffer c)] else [],
      Inr (c\<lparr> audio_buffer := (if on_audio_delta cfg then [] else audio_buffer c),
              is_responding := False, current_response_id := JNull, current_item_id := JNull \<rparr>))"
  using assms by (simp add: handle_event_def is_event_def)

lemma handle_event_audio_delta:
  assumes "audio_delta_bytes E event = Some bs" and "on_audio_delta cfg"
  shows "handle_event E cfg c now event =
     (if releases c now (audio_buffer c @ bs)
      then ([Sleep (double_mul (target_delay (length (audio_buffer c @ bs))) (double_round (1 / 10))),
             AudioCallback (audio_buffer c @ bs)],
            Inr (c\<lparr> audio_buffer := [], last_audio_time := now,
                    current_audio_sample_count :=
                      current_audio_sample_count c + int (length (audio_buffer c @ bs)) div 2 \<rparr>))
      else ([], Inr (c\<lparr> audio_buffer := audio_buffer c @ bs \<rparr>)))"
  using assms
  by (auto simp: handle_event_def audio_delta_bytes_def is_event_def releases_def target_delay_def
           Let_def split: if_splits sum.splits)

lemma handle_event_speech_started:
  assumes "is_event ''input_audio_buffer.speech_started'' event"
  shows "handle_event E cfg c now event =
     ([Printed LogSpeechDetected] @ fst (handle_interruption c)
        @ (if on_interrupt cfg then [InterruptCallback] else []),
      Inr (snd (handle_interruption c)))"
  using assms by (simp add: handle_event_def is_event_def handle_interruption_def)

lemma handle_event_tool_call:
  assumes "is_event ''response.function_call_arguments.done'' event"
    and "getitem event ''call_id'' = Inr call_id"
    and "getitem event ''name'' = Inr name"
    and "getitem event ''arguments'' = Inr (JStr a)"
  shows "handle_event E cfg c now event =
     (case json_loads E a of
        None \<Rightarrow> ([], Inl JSONDecodeError)
      | Some args \<Rightarrow>
          (case call_tool E call_id name args of
             (sent, Inl e) \<Rightarrow> (sent, Inl e)
           | (sent, Inr u) \<Rightarrow> (sent, Inr c)))"
  using assms by (simp add: handle_event_def is_event_def split: option.splits)

lemma import_utils_raises:
  "import_utils E = Inl (case import_openai E of Some e \<Rightarrow> e | None \<Rightarrow> NameError ''chromadb'')"
  by (simp add: import_utils_def utils_names_at_line_2_def split: option.splits)

text \<open>Every call of \<^verbatim>\<open>call_tool\<close> raises at its import and sends nothing.\<close>

lemma call_tool_raises:
  "call_tool E call_id tool_name tool_arguments =
     ([], Inl (case import_openai E of Some e \<Rightarrow> e | None \<Rightarrow> NameError ''chromadb''))"
  by (simp add: call_tool_def import_utils_raises)

lemma handle_messages_append:
  "handle_messages E cfg c (xs @ ys) =
     (case handle_messages E cfg c xs of
        (out, Inl e) \<Rightarrow> (out, Inl e)
      | (out, Inr c1) \<Rightarrow> (case handle_messages E cfg c1 ys of (out1, r) \<Rightarrow> (out @ out1, r)))"
  by (induction xs arbitrary: c) (auto split: option.splits prod.splits sum.splits)

text \<open>
  A run of audio delta messages never fails when the callback is there; what was released
  and what is still buffered are together the old buffer and the decoded bytes, in order,
  and the sample count grows by half of each released chunk, rounded down.
\<close>

lemma delta_run:
  assumes "list_all2 (\<lambda>tm bs. message_delta_bytes E tm = Some bs) deltas chunks"
    and "on_audio_delta cfg"
  shows "\<exists>out c1. handle_messages E cfg c deltas = (out, Inr c1)
           \<and> concat (callback_chunks out) @ audio_buffer c1 = audio_buffer c @ concat chunks
           \<and> current_audio_sample_count c1 =
               current_audio_sample_count c
                 + sum_list (map (\<lambda>bs. int (length bs) div 2) (callback_chunks out))
           \<and> sent_messages out = []"
  using assms
proof (induction deltas chunks arbitrary: c rule: list_all2_induct)
  case Nil
  then show ?case by simp
next
  case (Cons tm deltas bs chunks)
  obtain now m where tm: "tm = (now, m)" by (cases tm)
  from Cons.hyps(1) tm obtain event where
    ev: "json_loads E m = Some event" "audio_delta_bytes E event = Some bs"
    by (auto simp: message_delta_bytes_def split: option.splits)
  show ?case
  proof (cases "releases c now (audio_buffer c @ bs)")
    case True
    let ?c = "c\<lparr> audio_buffer := [], last_audio_time := now,
                    current_audio_sample_count :=
                      current_audio_sample_count c + int (length (audio_buffer c @ bs)) div 2 \<rparr>"
    from Cons.IH [OF Cons.prems, of ?c] obtain out c1 where
      "handle_messages E cfg ?c deltas = (out, Inr c1)"
      "concat (callback_chunks out) @ audio_buffer c1 = concat chunks"
      "current_audio_sample_count c1 =
         current_audio_sample_count c + int (length (audio_buffer c @ bs)) div 2
           + sum_list (map (\<lambda>bs. int (length bs) div 2) (callback_chunks out))"
      "sent_messages out = []"
      by auto
    with True ev Cons.prems show ?thesis
      by (simp add: tm handle_event_audio_delta)
  next
    case False
    let ?c = "c\<lparr> audio_buffer := audio_buffer c @ bs \<rparr>"
    from Cons.IH [OF Cons.prems, of ?c] obtain out c1 where
      "handle_messages E cfg ?c deltas = (out, Inr c1)"
      "concat (callback_chunks out) @ audio_buffer c1 = audio_buffer c @ bs @ concat chunks"
      "current_audio_sample_count c1 =
         current_audio_sample_count c
           + sum_list (map (\<lambda>bs. int (length bs) div 2) (callback_chunks out))"
      "sent_messages out = []"
      by auto
    with False ev Cons.prems show ?thesis
      by (simp add: tm handle_event_audio_delta)
  qed
qed

lemma half_sum_even:
  "list_all (\<lambda>bs. even (length bs)) xs \<Longrightarrow>
     sum_list (map (\<lambda>bs. int (length bs) div 2) xs) = int (length (concat xs)) div 2"
proof (induction xs)
  case Nil
  then show ?case by simp
next
  case (Cons x xs)
  then have "even (int (length x))" by simp
  then have "(int (length x) + int (length (concat xs))) div 2
               = int (length x) div 2 + int (length (concat xs)) div 2"
    by (metis div_plus_div_distrib_dvd_left)
  with Cons show ?case by simp
qed

subsection \<open>The concrete environment on its inputs\<close>

lemma example_json_loads_delta:
  "json_loads example_env (audio_delta_text d) = Some (audio_delta_event d)"
  by (simp add: example_env_def example_json_loads_def audio_delta_text_def)

lemma example_json_loads_table:
  "json_loads example_env created_text = Some created_event"
  "json_loads example_env created2_text = Some created2_event"
  "json_loads example_env item_added_text = Some item_added_event"
  "json_loads example_env item_added2_text = Some item_added2_event"
  "json_loads example_env done_text = Some done_event"
  "json_loads example_env speech_started_text = Some speech_started_event"
  "json_loads example_env query_text = Some query_args"
  "json_loads example_env bad_arguments_text = Some (tool_call_event ''lookup'' ''{query'')"
  "json_loads example_env tool_call_text = Some (tool_call_event ''lookup'' query_text)"
  "json_loads example_env ''{query'' = None"
  by (simp_all add: example_env_def example_json_loads_def audio_delta_text_def
        example_table_def created_text_def created2_text_def item_added_text_def
        item_added2_text_def done_text_def speech_started_text_def query_text_def
        bad_arguments_text_def tool_call_text_def)

lemma takeWhile_A_run:
  "takeWhile (\<lambda>ch. ch = CHR ''A'') (replicate n CHR ''A'' @ ''=='') = replicate n CHR ''A''"
  "takeWhile (\<lambda>ch. ch = CHR ''A'') (replicate n CHR ''A'') = replicate n CHR ''A''"
  by (induction n) simp_all

lemma example_b64decode_zeros:
  "n mod 4 = 0 \<Longrightarrow>
     b64decode example_env (replicate n CHR ''A'') = Inr (replicate (n div 4 * 3) 0)"
  "n mod 4 = 2 \<Longrightarrow>
     b64decode example_env (replicate n CHR ''A'' @ ''=='') = Inr (replicate (n div 4 * 3 + 1) 0)"
  by (simp_all add: example_env_def example_b64decode_def takeWhile_A_run)

lemma example_delta_bytes:
  "n mod 4 = 0 \<Longrightarrow>
     message_delta_bytes example_env (t, audio_delta_text (replicate n CHR ''A''))
       = Some (replicate (n div 4 * 3) 0)"
  "n mod 4 = 2 \<Longrightarrow>
     message_delta_bytes example_env (t, audio_delta_text (replicate n CHR ''A'' @ ''==''))
       = Some (replicate (n div 4 * 3 + 1) 0)"
  by (simp_all add: message_delta_bytes_def example_json_loads_delta audio_delta_bytes_def
        audio_delta_event_def is_event_def example_b64decode_zeros)

lemma example_events:
  "created_id created_event = Some (JStr ''r1'')"
  "created_id created2_event = Some (JStr ''r2'')"
  "is_event ''response.done'' done_event"
  "is_event ''input_audio_buffer.speech_started'' speech_started_event"
  by (simp_all add: created_id_def is_event_def created_event_def created2_event_def
        done_event_def speech_started_event_def)

lemma example_import_openai: "import_openai example_env = None"
  by (simp add: example_env_def)

lemma example_tool_call_event:
  "is_event ''response.function_call_arguments.done'' (tool_call_event name a)"
  "getitem (tool_call_event name a) ''call_id'' = Inr (JStr ''c1'')"
  "getitem (tool_call_event name a) ''name'' = Inr (JStr name)"
  "getitem (tool_call_event name a) ''arguments'' = Inr (JStr a)"
  by (simp_all add: is_event_def tool_call_event_def)

section \<open>Interruption\<close>

text \<open>
  C9. When \<^verbatim>\<open>input_audio_buffer.speech_started\<close> arrives while the client is not
  responding, interruption handling does nothing: \<^verbatim>\<open>handle_interruption\<close> returns at
  once, the event sends no message at all (so neither \<^verbatim>\<open>response.cancel\<close> nor
  \<^verbatim>\<open>conversation.item.truncate\<close>), and the client, with its response id, item id and
  responding flag, is as before. Only the line is printed and the interrupt callback,
  when supplied, is called.
\<close>

theorem speech_started_when_idle:
  assumes "is_event ''input_audio_buffer.speech_started'' event"
    and "\<not> is_responding c"
  shows "handle_event E cfg c now event =
           ([Printed LogSpeechDetected] @ (if on_interrupt cfg then [InterruptCallback] else []),
            Inr c)
         \<and> sent_messages (fst (handle_event E cfg c now event)) = []
         \<and> handle_interruption c = ([], c)"
  using assms by (simp add: handle_event_speech_started handle_interruption_def)

theorem speech_started_when_idle_witness:
  "is_event ''input_audio_buffer.speech_started'' speech_started_event
   \<and> \<not> is_responding init_client
   \<and> handle_event example_env example_config init_client 5 speech_started_event =
        ([Printed LogSpeechDetected, InterruptCallback], Inr init_client)
   \<and> sent_messages (fst (handle_event example_env example_config init_client 5 speech_started_event)) = []
   \<and> handle_interruption init_client = ([], init_client)"
  using speech_started_when_idle [of speech_started_event init_client example_env example_config 5]
  by (simp add: example_events init_client_def example_config_def)

text \<open>
  C10. On every \<^verbatim>\<open>input_audio_buffer.speech_started\<close> event the interrupt callback,
  when supplied, is called, whether or not a response is active: the event never raises,
  the callback is called exactly once, as the last thing the event does, and it is not
  called when none was supplied.
\<close>

theorem interrupt_callback_on_every_speech_started:
  assumes "is_event ''input_audio_buffer.speech_started'' event"
  shows "\<exists>out c1. handle_event E cfg c now event = (out, Inr c1)
           \<and> count_list out InterruptCallback = (if on_interrupt cfg then 1 else 0)
           \<and> (on_interrupt cfg \<longrightarrow> last out = InterruptCallback)"
  using assms
  by (simp add: handle_event_speech_started handle_interruption_def cancel_response_def
        truncate_response_def)

theorem interrupt_callback_on_every_speech_started_witness:
  "is_event ''input_audio_buffer.speech_started'' speech_started_event
   \<and> (\<exists>out c1. handle_event example_env example_config init_client 5 speech_started_event
                  = (out, Inr c1)
         \<and> count_list out InterruptCallback = 1 \<and> last out = InterruptCallback)"
  using interrupt_callback_on_every_speech_started
          [of speech_started_event example_env example_config init_client 5]
  by (simp add: example_events example_config_def)

text \<open>
  C1, as the code has it. When \<^verbatim>\<open>input_audio_buffer.speech_started\<close> arrives while
  the client is responding, the client sends \<^verbatim>\<open>response.cancel\<close>, a message with no
  other field, if the current response id is set, and then
  \<^verbatim>\<open>conversation.item.truncate\<close> with the current item id, the content index and
  \<open>audio_end_ms = current_audio_sample_count * 1000 div 24000\<close> if the current item id
  is set; it sends nothing else. Then the responding flag, the response id and the item id
  are cleared, and the interrupt callback, when supplied, is called.
\<close>

theorem interruption_sequence:
  assumes "is_event ''input_audio_buffer.speech_started'' event"
    and "is_responding c"
  shows "handle_event E cfg c now event =
           ([Printed LogSpeechDetected, Printed LogHandlingInterruption]
            @ (if truthy (current_response_id c)
               then [Sent (JObj [(''type'', JStr ''response.cancel'')])] else [])
            @ (if truthy (current_item_id c)
               then [Sent (JObj [(''type'', JStr ''conversation.item.truncate''),
                                 (''item_id'', current_item_id c),
                                 (''content_index'', JInt (current_content_index c)),
                                 (''audio_end_ms'',
                                    JInt (current_audio_sample_count c * 1000 div 24000))])]
               else [])
            @ (if on_interrupt cfg then [InterruptCallback] else []),
            Inr (c\<lparr> is_responding := False, current_response_id := JNull,
                    current_item_id := JNull \<rparr>))"
  using assms
  by (simp add: handle_event_speech_started handle_interruption_def cancel_response_def
        truncate_response_def)

theorem interruption_sequence_witness:
  "is_event ''input_audio_buffer.speech_started'' speech_started_event
   \<and> is_responding responding_client
   \<and> handle_event example_env example_config responding_client 5 speech_started_event =
        ([Printed LogSpeechDetected, Printed LogHandlingInterruption,
          Sent (JObj [(''type'', JStr ''response.cancel'')]),
          Sent (JObj [(''type'', JStr ''conversation.item.truncate''),
                      (''item_id'', JStr ''i1''),
                      (''content_index'', JInt 0),
                      (''audio_end_ms'', JInt 100)]),
          InterruptCallback],
         Inr (responding_client\<lparr> is_responding := False, current_response_id := JNull,
                                 current_item_id := JNull \<rparr>))"
  using interruption_sequence
          [of speech_started_event responding_client example_env example_config 5]
  by (simp add: example_events responding_client_def example_config_def)

text \<open>
  C1 as stated fails: a \<^verbatim>\<open>speech_started\<close> right after \<^verbatim>\<open>response.created\<close>, before
  any output item was added, sends the cancel message, which carries no response id, and
  no truncate message.
\<close>

theorem interruption_without_item_counterexample:
  "handle_messages example_env example_config init_client
     [(1, created_text), (2, speech_started_text)] =
     ([Printed LogSpeechDetected, Printed LogHandlingInterruption,
       Sent (JObj [(''type'', JStr ''response.cancel'')]),
       InterruptCallback],
      Inr init_client)"
  by (simp add: example_json_loads_table handle_event_created example_events
        handle_event_speech_started handle_interruption_def cancel_response_def
        truncate_response_def init_client_def example_config_def)

section \<open>Audio pacing\<close>

text \<open>
  C2. A \<^verbatim>\<open>response.created\<close> event records the response id and empties the audio
  buffer, but it leaves \<^verbatim>\<open>_current_audio_sample_count\<close> as it was: nothing in the
  client ever sets the count back. In a session whose first response played 4800 bytes,
  the count is still 2400 after the second \<^verbatim>\<open>response.created\<close>, and an interruption
  of the second response, of which nothing was played, truncates its item at 100 ms.
\<close>

theorem sample_count_not_reset:
  "map_sum id current_audio_sample_count
     (snd (handle_messages example_env example_config init_client
        [(1, created_text), (2, item_added_text),
         (3, audio_delta_text (replicate 6400 CHR ''A'')), (4, done_text),
         (5, created2_text)])) = Inr 2400
   \<and> sent_messages
     (fst (handle_messages example_env example_config init_client
        [(1, created_text), (2, item_added_text),
         (3, audio_delta_text (replicate 6400 CHR ''A'')), (4, done_text),
         (5, created2_text), (6, item_added2_text), (7, speech_started_text)])) =
     [JObj [(''type'', JStr ''response.cancel'')],
      JObj [(''type'', JStr ''conversation.item.truncate''),
            (''item_id'', JStr ''i2''),
            (''content_index'', JInt 0),
            (''audio_end_ms'', JInt 100)]]"
  by (simp add: example_json_loads_table example_json_loads_delta handle_event_def
        created_event_def created2_event_def item_added_event_def item_added2_event_def
        done_event_def speech_started_event_def audio_delta_event_def
        example_b64decode_zeros init_client_def example_config_def
        min_audio_chunk_size_def pacing_examples [unfolded target_delay_def, simplified]
        handle_interruption_def cancel_response_def truncate_response_def)

text \<open>
  C3. Within one response, that is from \<^verbatim>\<open>response.created\<close> through any sequence of
  \<^verbatim>\<open>response.audio.delta\<close> events to \<^verbatim>\<open>response.done\<close>, with the playback callback
  supplied, the loop does not fail and the chunks passed to the callback, put together,
  are the decoded bytes of the deltas in order: no byte is dropped or passed twice, so the
  number of bytes passed is their total \<open>N\<close>, whatever the clock readings and however
  small \<open>N\<close> is, and nothing stays in the buffer.
\<close>

theorem audio_bytes_conserved:
  assumes "on_audio_delta cfg"
    and "json_loads E m0 = Some ev0" and "created_id ev0 = Some rid"
    and "list_all2 (\<lambda>tm bs. message_delta_bytes E tm = Some bs) deltas chunks"
    and "json_loads E m1 = Some ev1" and "is_event ''response.done'' ev1"
  shows "\<exists>out c1. handle_messages E cfg c ((t0, m0) # deltas @ [(t1, m1)]) = (out, Inr c1)
           \<and> concat (callback_chunks out) = concat chunks
           \<and> sum_list (map length (callback_chunks out)) = sum_list (map length chunks)
           \<and> audio_buffer c1 = []"
proof -
  let ?c0 = "c\<lparr> current_response_id := rid, is_responding := True, audio_buffer := [] \<rparr>"
  from delta_run [OF assms(4) assms(1), of ?c0] obtain out c1 where
    run: "handle_messages E cfg ?c0 deltas = (out, Inr c1)"
      "concat (callback_chunks out) @ audio_buffer c1 = concat chunks"
    by auto
  let ?fl = "if audio_buffer c1 \<noteq> [] \<and> on_audio_delta cfg
             then [AudioCallback (audio_buffer c1)] else []"
  let ?c2 = "c1\<lparr> audio_buffer := (if on_audio_delta cfg then [] else audio_buffer c1),
                  is_responding := False, current_response_id := JNull,
                  current_item_id := JNull \<rparr>"
  have whole: "handle_messages E cfg c ((t0, m0) # deltas @ [(t1, m1)]) = (out @ ?fl, Inr ?c2)"
    using assms(2,3,5,6) run(1)
    by (simp add: handle_event_created handle_messages_append handle_event_done)
  have bytes: "concat (callback_chunks (out @ ?fl)) = concat chunks"
    using run(2) assms(1) by auto
  have "sum_list (map length (callback_chunks (out @ ?fl))) = length (concat chunks)"
    unfolding bytes [symmetric] by (simp add: length_concat)
  then have total:
    "sum_list (map length (callback_chunks (out @ ?fl))) = sum_list (map length chunks)"
    by (simp add: length_concat)
  have "audio_buffer ?c2 = []" using assms(1) by simp
  with whole bytes total show ?thesis by blast
qed

theorem audio_bytes_conserved_witness:
  "on_audio_delta example_config
   \<and> json_loads example_env created_text = Some created_event
   \<and> created_id created_event = Some (JStr ''r1'')
   \<and> list_all2 (\<lambda>tm bs. message_delta_bytes example_env tm = Some bs)
        [(2, audio_delta_text (replicate 8 CHR ''A'')),
         (3, audio_delta_text (replicate 4 CHR ''A''))]
        [replicate 6 0, replicate 3 0]
   \<and> json_loads example_env done_text = Some done_event
   \<and> is_event ''response.done'' done_event
   \<and> (\<exists>out c1. handle_messages example_env example_config init_client
                   ((1, created_text)
                    # [(2, audio_delta_text (replicate 8 CHR ''A'')),
                       (3, audio_delta_text (replicate 4 CHR ''A''))]
                    @ [(4, done_text)]) = (out, Inr c1)
         \<and> concat (callback_chunks out) = concat [replicate 6 0, replicate 3 0]
         \<and> sum_list (map length (callback_chunks out)) = 9
         \<and> audio_buffer c1 = [])"
proof -
  have cb: "on_audio_delta example_config" by (simp add: example_config_def)
  have ds: "list_all2 (\<lambda>tm bs. message_delta_bytes example_env tm = Some bs)
        [(2, audio_delta_text (replicate 8 CHR ''A'')),
         (3, audio_delta_text (replicate 4 CHR ''A''))]
        [replicate 6 0, replicate 3 0]"
    using example_delta_bytes(1) [of 8 2] example_delta_bytes(1) [of 4 3] by simp
  from audio_bytes_conserved [OF cb example_json_loads_table(1) example_events(1) ds
         example_json_loads_table(5) example_events(3), of init_client 1 4]
  show ?thesis using cb ds by (simp add: example_json_loads_table example_events)
qed

text \<open>
  C4, as the code has it. Every release made by a \<^verbatim>\<open>response.audio.delta\<close> event adds
  half the released chunk's length, rounded down, to \<^verbatim>\<open>_current_audio_sample_count\<close>:
  over any run of audio deltas the count grows by the sum of these halves, which is half
  the total number of bytes released when every released chunk has an even length.
\<close>

theorem sample_count_after_releases:
  assumes "list_all2 (\<lambda>tm bs. message_delta_bytes E tm = Some bs) deltas chunks"
    and "on_audio_delta cfg"
  shows "\<exists>out c1. handle_messages E cfg c deltas = (out, Inr c1)
           \<and> current_audio_sample_count c1 =
               current_audio_sample_count c
                 + sum_list (map (\<lambda>bs. int (length bs) div 2) (callback_chunks out))
           \<and> (list_all (\<lambda>bs. even (length bs)) (callback_chunks out) \<longrightarrow>
                current_audio_sample_count c1 =
                  current_audio_sample_count c
                    + int (length (concat (callback_chunks out))) div 2)"
proof -
  from delta_run [OF assms, of c] obtain out c1 where
    run: "handle_messages E cfg c deltas = (out, Inr c1)"
      "current_audio_sample_count c1 =
         current_audio_sample_count c
           + sum_list (map (\<lambda>bs. int (length bs) div 2) (callback_chunks out))"
    by auto
  then show ?thesis by (auto simp: half_sum_even)
qed

theorem sample_count_after_releases_witness:
  "list_all2 (\<lambda>tm bs. message_delta_bytes example_env tm = Some bs)
     [(1, audio_delta_text (replicate 6400 CHR ''A'')),
      (2, audio_delta_text (replicate 8 CHR ''A''))]
     [replicate 4800 0, replicate 6 0]
   \<and> on_audio_delta example_config
   \<and> (\<exists>out c1. handle_messages example_env example_config init_client
                   [(1, audio_delta_text (replicate 6400 CHR ''A'')),
                    (2, audio_delta_text (replicate 8 CHR ''A''))] = (out, Inr c1)
         \<and> callback_chunks out = [replicate 4800 0]
         \<and> current_audio_sample_count c1 = 2400)"
proof -
  have cb: "on_audio_delta example_config" by (simp add: example_config_def)
  have ds: "list_all2 (\<lambda>tm bs. message_delta_bytes example_env tm = Some bs)
     [(1, audio_delta_text (replicate 6400 CHR ''A'')),
      (2, audio_delta_text (replicate 8 CHR ''A''))]
     [replicate 4800 0, replicate 6 0]"
    using example_delta_bytes(1) [of 6400 1] example_delta_bytes(1) [of 8 2] by simp
  have run: "fst (handle_messages example_env example_config init_client
                   [(1, audio_delta_text (replicate 6400 CHR ''A'')),
                    (2, audio_delta_text (replicate 8 CHR ''A''))])
             = [Sleep (double_mul (target_delay 4800) (double_round (1 / 10))),
                AudioCallback (replicate 4800 0)]"
    using example_delta_bytes(1) [of 6400 1] example_delta_bytes(1) [of 8 2]
    by (simp add: example_json_loads_delta message_delta_bytes_def handle_event_audio_delta cb
          releases_def min_audio_chunk_size_def pacing_examples init_client_def)
  from sample_count_after_releases [OF ds cb, of init_client] obtain out c1 where
    "handle_messages example_env example_config init_client
       [(1, audio_delta_text (replicate 6400 CHR ''A'')),
        (2, audio_delta_text (replicate 8 CHR ''A''))] = (out, Inr c1)"
    "current_audio_sample_count c1 =
       current_audio_sample_count init_client
         + sum_list (map (\<lambda>bs. int (length bs) div 2) (callback_chunks out))"
    by blast
  with run have "handle_messages example_env example_config init_client
       [(1, audio_delta_text (replicate 6400 CHR ''A'')),
        (2, audio_delta_text (replicate 8 CHR ''A''))] = (out, Inr c1)
      \<and> callback_chunks out = [replicate 4800 0]
      \<and> current_audio_sample_count c1 = 2400"
    by (simp add: init_client_def)
  with ds cb show ?thesis by blast
qed

text \<open>
  C4 as stated fails in two ways. Two released chunks of 3201 bytes each are 6402 bytes,
  half of which is 3201, and the count is 3200. And the chunk flushed by
  \<^verbatim>\<open>response.done\<close> is not counted at all: after six bytes were flushed the count is
  still 0.
\<close>

theorem sample_count_counterexample:
  "callback_chunks (fst (handle_messages example_env example_config init_client
      [(1, created_text),
       (2, audio_delta_text (replicate 4268 CHR ''A'')),
       (3, audio_delta_text (replicate 4268 CHR ''A''))]))
     = [replicate 3201 0, replicate 3201 0]
   \<and> map_sum id current_audio_sample_count
       (snd (handle_messages example_env example_config init_client
          [(1, created_text),
           (2, audio_delta_text (replicate 4268 CHR ''A'')),
           (3, audio_delta_text (replicate 4268 CHR ''A''))])) = Inr 3200
   \<and> callback_chunks (fst (handle_messages example_env example_config init_client
        [(1, created_text), (2, audio_delta_text (replicate 8 CHR ''A'')), (3, done_text)]))
       = [replicate 6 0]
   \<and> map_sum id current_audio_sample_count
       (snd (handle_messages example_env example_config init_client
          [(1, created_text), (2, audio_delta_text (replicate 8 CHR ''A'')), (3, done_text)]))
       = Inr 0"
proof -
  have cb: "on_audio_delta example_config" by (simp add: example_config_def)
  have a: "handle_messages example_env example_config init_client
      [(1, created_text),
       (2, audio_delta_text (replicate 4268 CHR ''A'')),
       (3, audio_delta_text (replicate 4268 CHR ''A''))]
     = ([Sleep (double_mul (target_delay 3201) (double_round (1 / 10))),
         AudioCallback (replicate 3201 0),
         Sleep (double_mul (target_delay 3201) (double_round (1 / 10))),
         AudioCallback (replicate 3201 0)],
        Inr (init_client\<lparr> current_response_id := JStr ''r1'', is_responding := True,
                           last_audio_time := 3, current_audio_sample_count := 3200 \<rparr>))"
    using example_delta_bytes(1) [of 4268 2] example_delta_bytes(1) [of 4268 3]
    by (simp add: example_json_loads_table example_json_loads_delta message_delta_bytes_def
          handle_event_created example_events handle_event_audio_delta cb
          releases_def min_audio_chunk_size_def pacing_examples init_client_def)
  have b: "handle_messages example_env example_config init_client
        [(1, created_text), (2, audio_delta_text (replicate 8 CHR ''A'')), (3, done_text)]
     = ([AudioCallback (replicate 6 0)], Inr init_client)"
    using example_delta_bytes(1) [of 8 2]
    by (simp add: example_json_loads_table example_json_loads_delta message_delta_bytes_def
          handle_event_created example_events handle_event_audio_delta handle_event_done cb
          releases_def min_audio_chunk_size_def pacing_examples init_client_def)
  show ?thesis unfolding a b by (simp add: init_client_def)
qed

text \<open>
  C5, as the code has it. When a playback callback was supplied, a
  \<^verbatim>\<open>response.audio.delta\<close> event appends the decoded bytes to the buffer, and the buffer
  is passed to the callback and emptied exactly when it holds at least 3200 bytes and, in
  the doubles the code computes with, the clock minus \<^verbatim>\<open>_last_audio_time\<close> (the time of
  the last such release, 0 before the first) is at least \<open>bytes / 48000 * 0.95\<close>; the
  count then grows by half the chunk. Deltas of 1000, 1000 and 1500 bytes into an empty
  buffer release nothing at the first two, whatever the clock; the third releases all 3500
  bytes as one chunk if the timing condition holds then, and the count grows by 1750 (to
  1750 from 0); if it does not hold, the 3500 bytes stay in the buffer.
\<close>

theorem audio_pacing:
  assumes "on_audio_delta cfg"
  shows
    "(audio_delta_bytes E event = Some bs \<longrightarrow>
        handle_event E cfg c now event =
          (if length (audio_buffer c @ bs) \<ge> 3200
              \<and> double_sub now (last_audio_time c)
                  \<ge> double_mul (double_div (of_nat (length (audio_buffer c @ bs))) 48000)
                       playback_rate
           then ([Sleep (double_mul
                          (double_mul (double_div (of_nat (length (audio_buffer c @ bs))) 48000)
                             playback_rate)
                          (double_round (1 / 10))),
                  AudioCallback (audio_buffer c @ bs)],
                 Inr (c\<lparr> audio_buffer := [], last_audio_time := now,
                         current_audio_sample_count :=
                           current_audio_sample_count c
                             + int (length (audio_buffer c @ bs)) div 2 \<rparr>))
           else ([], Inr (c\<lparr> audio_buffer := audio_buffer c @ bs \<rparr>))))
     \<and> (audio_buffer c = []
            \<and> message_delta_bytes E (t1, m1) = Some b1 \<and> length b1 = 1000
            \<and> message_delta_bytes E (t2, m2) = Some b2 \<and> length b2 = 1000
            \<and> message_delta_bytes E (t3, m3) = Some b3 \<and> length b3 = 1500
         \<longrightarrow> handle_messages E cfg c [(t1, m1), (t2, m2)]
                = ([], Inr (c\<lparr> audio_buffer := b1 @ b2 \<rparr>))
              \<and> handle_messages E cfg c [(t1, m1), (t2, m2), (t3, m3)]
                = (if double_sub t3 (last_audio_time c)
                        \<ge> double_mul (double_div 3500 48000) playback_rate
                   then ([Sleep (double_mul (double_mul (double_div 3500 48000) playback_rate)
                                   (double_round (1 / 10))),
                          AudioCallback (b1 @ b2 @ b3)],
                         Inr (c\<lparr> audio_buffer := [], last_audio_time := t3,
                                 current_audio_sample_count :=
                                   current_audio_sample_count c + 1750 \<rparr>))
                   else ([], Inr (c\<lparr> audio_buffer := b1 @ b2 @ b3 \<rparr>))))"
proof -
  have step: "audio_delta_bytes E event = Some bs \<Longrightarrow>
        handle_event E cfg c now event =
          (if length (audio_buffer c @ bs) \<ge> 3200
              \<and> double_sub now (last_audio_time c)
                  \<ge> double_mul (double_div (of_nat (length (audio_buffer c @ bs))) 48000)
                       playback_rate
           then ([Sleep (double_mul
                          (double_mul (double_div (of_nat (length (audio_buffer c @ bs))) 48000)
                             playback_rate)
                          (double_round (1 / 10))),
                  AudioCallback (audio_buffer c @ bs)],
                 Inr (c\<lparr> audio_buffer := [], last_audio_time := now,
                         current_audio_sample_count :=
                           current_audio_sample_count c
                             + int (length (audio_buffer c @ bs)) div 2 \<rparr>))
           else ([], Inr (c\<lparr> audio_buffer := audio_buffer c @ bs \<rparr>)))"
    using assms
    by (simp add: handle_event_audio_delta releases_def target_delay_def
          min_audio_chunk_size_def)
  have scen: "handle_messages E cfg c [(t1, m1), (t2, m2)]
                = ([], Inr (c\<lparr> audio_buffer := b1 @ b2 \<rparr>))
              \<and> handle_messages E cfg c [(t1, m1), (t2, m2), (t3, m3)]
                = (if double_sub t3 (last_audio_time c)
                        \<ge> double_mul (double_div 3500 48000) playback_rate
                   then ([Sleep (double_mul (double_mul (double_div 3500 48000) playback_rate)
                                   (double_round (1 / 10))),
                          AudioCallback (b1 @ b2 @ b3)],
                         Inr (c\<lparr> audio_buffer := [], last_audio_time := t3,
                                 current_audio_sample_count :=
                                   current_audio_sample_count c + 1750 \<rparr>))
                   else ([], Inr (c\<lparr> audio_buffer := b1 @ b2 @ b3 \<rparr>)))"
    if h: "audio_buffer c = []"
      "message_delta_bytes E (t1, m1) = Some b1" "length b1 = 1000"
      "message_delta_bytes E (t2, m2) = Some b2" "length b2 = 1000"
      "message_delta_bytes E (t3, m3) = Some b3" "length b3 = 1500"
  proof -
    from h(2,4,6) obtain e1 e2 e3 where
      e: "json_loads E m1 = Some e1" "audio_delta_bytes E e1 = Some b1"
         "json_loads E m2 = Some e2" "audio_delta_bytes E e2 = Some b2"
         "json_loads E m3 = Some e3" "audio_delta_bytes E e3 = Some b3"
      by (auto simp: message_delta_bytes_def split: option.splits)
    show ?thesis
      using e h(1,3,5,7) assms
      by (simp add: handle_event_audio_delta releases_def target_delay_def
            min_audio_chunk_size_def)
  qed
  show ?thesis using step scen by simp
qed

theorem audio_pacing_witness:
  "on_audio_delta example_config
   \<and> audio_delta_bytes example_env (audio_delta_event (replicate 6400 CHR ''A''))
       = Some (replicate 4800 0)
   \<and> handle_event example_env example_config init_client 1
        (audio_delta_event (replicate 6400 CHR ''A''))
       = ([Sleep (double_mul (double_mul (double_div 4800 48000) playback_rate)
                    (double_round (1 / 10))),
           AudioCallback (replicate 4800 0)],
          Inr (init_client\<lparr> last_audio_time := 1, current_audio_sample_count := 2400 \<rparr>))
   \<and> audio_buffer init_client = []
   \<and> message_delta_bytes example_env (1, audio_delta_text (replicate 1334 CHR ''A'' @ ''==''))
       = Some (replicate 1000 0)
   \<and> message_delta_bytes example_env (1, audio_delta_text (replicate 2000 CHR ''A''))
       = Some (replicate 1500 0)
   \<and> handle_messages example_env example_config init_client
        [(1, audio_delta_text (replicate 1334 CHR ''A'' @ ''=='')),
         (1, audio_delta_text (replicate 1334 CHR ''A'' @ ''==''))]
       = ([], Inr (init_client\<lparr> audio_buffer := replicate 1000 0 @ replicate 1000 0 \<rparr>))
   \<and> handle_messages example_env example_config init_client
        [(1, audio_delta_text (replicate 1334 CHR ''A'' @ ''=='')),
         (1, audio_delta_text (replicate 1334 CHR ''A'' @ ''=='')),
         (1, audio_delta_text (replicate 2000 CHR ''A''))]
       = ([Sleep (double_mul (double_mul (double_div 3500 48000) playback_rate)
                    (double_round (1 / 10))),
           AudioCallback (replicate 1000 0 @ replicate 1000 0 @ replicate 1500 0)],
          Inr (init_client\<lparr> last_audio_time := 1, current_audio_sample_count := 1750 \<rparr>))"
proof -
  have cb: "on_audio_delta example_config" by (simp add: example_config_def)
  have ev: "audio_delta_bytes example_env (audio_delta_event (replicate 6400 CHR ''A''))
       = Some (replicate 4800 0)"
    using example_delta_bytes(1) [of 6400 1]
    by (simp add: message_delta_bytes_def example_json_loads_delta)
  have d1: "message_delta_bytes example_env (1, audio_delta_text (replicate 1334 CHR ''A'' @ ''==''))
       = Some (replicate 1000 0)"
    using example_delta_bytes(2) [of 1334 1] by simp
  have d3: "message_delta_bytes example_env (1, audio_delta_text (replicate 2000 CHR ''A''))
       = Some (replicate 1500 0)"
    using example_delta_bytes(1) [of 2000 1] by simp
  from audio_pacing [OF cb, of example_env "audio_delta_event (replicate 6400 CHR ''A'')"
         "replicate 4800 0" init_client 1
         1 "audio_delta_text (replicate 1334 CHR ''A'' @ ''=='')" "replicate 1000 0"
         1 "audio_delta_text (replicate 1334 CHR ''A'' @ ''=='')" "replicate 1000 0"
         1 "audio_delta_text (replicate 2000 CHR ''A'')" "replicate 1500 0"]
  show ?thesis
    using cb ev d1 d3
    by (simp add: init_client_def pacing_examples [unfolded target_delay_def, simplified])
qed

text \<open>
  C5 as stated fails in three ways. The client made without a playback callback appends
  nothing: after a delta of 4800 bytes its buffer is still empty. With 3600 bytes
  buffered, a clock reading of the double nearest to 0.07125 releases the buffer, though
  that time is less than \<open>3600 / 48000 * 0.95\<close>: the code compares doubles. And in a session
  that has released 4800 bytes before, the count after the three deltas is 4150.
\<close>

theorem audio_pacing_counterexample:
  "handle_event example_env default_config init_client 1
     (audio_delta_event (replicate 6400 CHR ''A'')) = ([], Inr init_client)
   \<and> callback_chunks (fst (handle_event example_env example_config init_client boundary_time
        (audio_delta_event (replicate 4800 CHR ''A'')))) = [replicate 3600 0]
   \<and> boundary_time - last_audio_time init_client < 3600 / 48000 * (95 / 100)
   \<and> map_sum id current_audio_sample_count
       (snd (handle_messages example_env example_config init_client
          [(1, created_text), (2, audio_delta_text (replicate 6400 CHR ''A'')), (3, done_text),
           (4, created2_text),
           (5, audio_delta_text (replicate 1334 CHR ''A'' @ ''=='')),
           (5, audio_delta_text (replicate 1334 CHR ''A'' @ ''=='')),
           (5, audio_delta_text (replicate 2000 CHR ''A''))])) = Inr 4150"
proof -
  have cb: "on_audio_delta example_config" by (simp add: example_config_def)
  have a: "handle_event example_env default_config init_client 1
     (audio_delta_event (replicate 6400 CHR ''A'')) = ([], Inr init_client)"
    by (simp add: handle_event_def audio_delta_event_def default_config_def)
  have ev: "audio_delta_bytes example_env (audio_delta_event (replicate 4800 CHR ''A''))
       = Some (replicate 3600 0)"
    using example_delta_bytes(1) [of 4800 1]
    by (simp add: message_delta_bytes_def example_json_loads_delta)
  have b: "callback_chunks (fst (handle_event example_env example_config init_client boundary_time
        (audio_delta_event (replicate 4800 CHR ''A'')))) = [replicate 3600 0]"
    using pacing_boundary
    by (simp add: handle_event_audio_delta [OF ev cb] releases_def min_audio_chunk_size_def
          init_client_def)
  have c: "boundary_time - last_audio_time init_client < 3600 / 48000 * (95 / 100)"
    using boundary_time_below by (simp add: init_client_def)
  have d: "map_sum id current_audio_sample_count
       (snd (handle_messages example_env example_config init_client
          [(1, created_text), (2, audio_delta_text (replicate 6400 CHR ''A'')), (3, done_text),
           (4, created2_text),
           (5, audio_delta_text (replicate 1334 CHR ''A'' @ ''=='')),
           (5, audio_delta_text (replicate 1334 CHR ''A'' @ ''=='')),
           (5, audio_delta_text (replicate 2000 CHR ''A''))])) = Inr 4150"
    using example_delta_bytes(1) [of 6400 2] example_delta_bytes(2) [of 1334 5]
      example_delta_bytes(1) [of 2000 5]
    by (simp add: example_json_loads_table example_json_loads_delta message_delta_bytes_def
          handle_event_created example_events handle_event_audio_delta handle_event_done cb
          releases_def min_audio_chunk_size_def pacing_examples init_client_def)
  from a b c d show ?thesis by blast
qed

section \<open>Tool calls\<close>

text \<open>
  C7. The tool call of the scenario does not get as far as the retrieval:
  \<^verbatim>\<open>call_tool\<close> imports the retrieval module, whose body reads \<^verbatim>\<open>chromadb\<close> before
  importing it, and the import raises NameError. For the event with call id c1, name
  lookup and arguments \<^verbatim>\<open>{"query":"X"}\<close> the client sends nothing, neither the function
  call output nor \<^verbatim>\<open>response.create\<close>, and the exception ends the message loop.
\<close>

theorem tool_call_raises_name_error:
  "handle_event example_env example_config init_client 1 (tool_call_event ''lookup'' query_text)
     = ([], Inl (NameError ''chromadb''))
   \<and> handle_messages example_env example_config init_client
       [(1, tool_call_text), (2, created_text)]
     = ([Printed (LogErrorInHandling (NameError ''chromadb''))], Inl (NameError ''chromadb''))"
  by (simp add: example_json_loads_table
        handle_event_tool_call [OF example_tool_call_event] call_tool_raises
        example_import_openai)

text \<open>
  C6, as the code has it. There is no handling of a failed tool call. When the arguments
  of a \<^verbatim>\<open>response.function_call_arguments.done\<close> event do not parse, the exception
  leaves the loop: \<^verbatim>\<open>handle_messages\<close> prints it and raises it again, no function call
  output is sent and no later message is read. The function name is never looked at: two
  such events that differ in the name only are handled alike, so no name is unknown to
  the client.
\<close>

theorem tool_call_failures:
  assumes "json_loads E m = Some event"
    and "is_event ''response.function_call_arguments.done'' event"
    and "getitem event ''call_id'' = Inr call_id"
    and "getitem event ''name'' = Inr name"
    and "getitem event ''arguments'' = Inr (JStr a)"
  shows "(json_loads E a = None \<longrightarrow>
            handle_messages E cfg c ((now, m) # rest) =
              ([Printed (LogErrorInHandling JSONDecodeError)], Inl JSONDecodeError))
         \<and> (is_event ''response.function_call_arguments.done'' other
              \<and> getitem other ''call_id'' = Inr call_id
              \<and> getitem other ''name'' = Inr other_name
              \<and> getitem other ''arguments'' = Inr (JStr a) \<longrightarrow>
            handle_event E cfg c now other = handle_event E cfg c now event)"
  using assms by (auto simp: handle_event_tool_call call_tool_def split: option.splits)

theorem tool_call_failures_witness:
  "json_loads example_env bad_arguments_text = Some (tool_call_event ''lookup'' ''{query'')
   \<and> is_event ''response.function_call_arguments.done'' (tool_call_event ''lookup'' ''{query'')
   \<and> getitem (tool_call_event ''lookup'' ''{query'') ''call_id'' = Inr (JStr ''c1'')
   \<and> getitem (tool_call_event ''lookup'' ''{query'') ''name'' = Inr (JStr ''lookup'')
   \<and> getitem (tool_call_event ''lookup'' ''{query'') ''arguments'' = Inr (JStr ''{query'')
   \<and> json_loads example_env ''{query'' = None
   \<and> handle_messages example_env example_config init_client
        ((1, bad_arguments_text) # [(2, created_text)]) =
        ([Printed (LogErrorInHandling JSONDecodeError)], Inl JSONDecodeError)
   \<and> is_event ''response.function_call_arguments.done''
        (tool_call_event ''no_such_tool'' ''{query'')
   \<and> getitem (tool_call_event ''no_such_tool'' ''{query'') ''call_id'' = Inr (JStr ''c1'')
   \<and> getitem (tool_call_event ''no_such_tool'' ''{query'') ''name'' = Inr (JStr ''no_such_tool'')
   \<and> getitem (tool_call_event ''no_such_tool'' ''{query'') ''arguments'' = Inr (JStr ''{query'')
   \<and> handle_event example_env example_config init_client 1
        (tool_call_event ''no_such_tool'' ''{query'')
      = handle_event example_env example_config init_client 1
          (tool_call_event ''lookup'' ''{query'')"
proof -
  note h = example_json_loads_table(8) example_tool_call_event [of "''lookup''" "''{query''"]
  note o = example_tool_call_event [of "''no_such_tool''" "''{query''"]
  from tool_call_failures [OF h, of example_config init_client 1 "[(2, created_text)]"
         "tool_call_event ''no_such_tool'' ''{query''" "JStr ''no_such_tool''"] h o
  show ?thesis by (simp add: example_json_loads_table)
qed

text \<open>
  C6 as stated fails. Arguments that are not JSON end the message loop with the
  exception, after nothing but the printed line: the message after it is not handled.
  And a call of a function the client does not know sends no error output either: it
  raises like every tool call and sends nothing.
\<close>

theorem tool_call_failures_counterexample:
  "handle_messages example_env example_config init_client
     [(1, bad_arguments_text), (2, created_text)] =
     ([Printed (LogErrorInHandling JSONDecodeError)], Inl JSONDecodeError)
   \<and> handle_event example_env example_config init_client 1
       (tool_call_event ''no_such_tool'' query_text) = ([], Inl (NameError ''chromadb''))"
  by (simp add: example_json_loads_table
        handle_event_tool_call [OF example_tool_call_event] call_tool_raises
        example_import_openai)

section \<open>Properties of the voice-activity gate\<close>













end
